theory Spec2Isabelle
  imports Complex_Main
begin

section \<open>Python values used by \<open>backend/app.py\<close>\<close>

text \<open>
  Prices and the parsed \<open>min_price\<close>/\<open>max_price\<close> bounds are Python floats. A float is
  modelled by the number it denotes, or one of the three special values that
  \<open>float(...)\<close> can also produce. Rounding to binary64 is not modelled: a finite float
  stands for an exact rational. The comparisons follow IEEE 754 as Python exposes them:
  every comparison with NaN is false.
\<close>

datatype pyfloat = Finite rat | PosInf | NegInf | NaN

fun float_le :: "pyfloat \<Rightarrow> pyfloat \<Rightarrow> bool" where
  "float_le NaN b = False"
| "float_le a NaN = False"
| "float_le NegInf b = True"
| "float_le a PosInf = True"
| "float_le (Finite a) (Finite b) = (a \<le> b)"
| "float_le PosInf b = False"
| "float_le a NegInf = False"

text \<open>Python's \<open>a >= b\<close> and \<open>a < b\<close> on floats.\<close>

definition float_ge :: "pyfloat \<Rightarrow> pyfloat \<Rightarrow> bool" where
  "float_ge a b = float_le b a"


text \<open>
  The static documents of the store are nested dicts and lists; the router treats them as
  opaque values. \<open>PNone\<close> is Python's \<open>None\<close>; a dict keeps its insertion order.
\<close>

datatype pyval =
    PNone
  | PBool bool
  | PInt int
  | PFloat pyfloat
  | PStr string
  | PList "pyval list"
  | PDict "(string \<times> pyval) list"

subsection \<open>\<open>str.split\<close>, \<open>str(int)\<close> and \<open>float(str)\<close>\<close>

text \<open>
  \<open>s.split(sep)\<close> for a one-character separator: the result is never empty, and
  \<open>''''.split('','')\<close> is \<open>['''']\<close>.
\<close>

fun str_split :: "char \<Rightarrow> string \<Rightarrow> string list" where
  "str_split sep [] = [[]]"
| "str_split sep (c # cs) =
     (if c = sep then [] # str_split sep cs
      else (case str_split sep cs of
              [] \<Rightarrow> [[c]]
            | w # ws \<Rightarrow> (c # w) # ws))"

definition digit_char :: "nat \<Rightarrow> char" where
  "digit_char d = ''0123456789'' ! d"

fun str_nat :: "nat \<Rightarrow> string" where
  "str_nat n = (if n < 10 then [digit_char n] else str_nat (n div 10) @ [digit_char (n mod 10)])"

declare str_nat.simps [simp del]

definition str_int :: "int \<Rightarrow> string" where
  "str_int i = (if i < 0 then CHR ''-'' # str_nat (nat (- i)) else str_nat (nat i))"

text \<open>
  \<open>float(s)\<close> on an ASCII string, with \<open>None\<close> for the \<open>ValueError\<close> it raises on a
  string that is not a number. The accepted strings are those of Python's grammar:
  optional white space around, an optional sign, then \<open>inf\<close>, \<open>infinity\<close> or \<open>nan\<close> in
  any case, or a decimal number (digits with single underscores between them, an optional
  point, an optional exponent) with at least one digit in its mantissa.
\<close>

definition is_space :: "char \<Rightarrow> bool" where
  "is_space c = (c \<in> set [CHR '' '', CHR 0x09, CHR 0x0A, CHR 0x0B, CHR 0x0C, CHR 0x0D])"

definition str_strip :: "string \<Rightarrow> string" where
  "str_strip s = rev (dropWhile is_space (rev (dropWhile is_space s)))"

definition lower_char :: "char \<Rightarrow> char" where
  "lower_char c =
     (case map_of (zip ''ABCDEFGHIJKLMNOPQRSTUVWXYZ'' ''abcdefghijklmnopqrstuvwxyz'') c of
        None \<Rightarrow> c
      | Some l \<Rightarrow> l)"

definition digit_val :: "char \<Rightarrow> nat option" where
  "digit_val c = map_of (zip ''0123456789'' [0, 1, 2, 3, 4, 5, 6, 7, 8, 9]) c"

text \<open>
  The longest prefix of digits and of underscores that stand before a digit; \<open>digitpart\<close>
  also asks for a digit first, so that an underscore only stands between two digits.
\<close>

fun scan_digits :: "string \<Rightarrow> nat list \<times> string" where
  "scan_digits [] = ([], [])"
| "scan_digits (c # cs) =
     (case digit_val c of
        Some d \<Rightarrow> (case scan_digits cs of (ds, r) \<Rightarrow> (d # ds, r))
      | None \<Rightarrow>
          (if c = CHR ''_'' \<and> (case cs of [] \<Rightarrow> False | c' # _ \<Rightarrow> digit_val c' \<noteq> None)
           then scan_digits cs
           else ([], c # cs)))"

definition digitpart :: "string \<Rightarrow> nat list \<times> string" where
  "digitpart s =
     (case s of
        [] \<Rightarrow> ([], s)
      | c # _ \<Rightarrow> (if digit_val c = None then ([], s) else scan_digits s))"

definition digits_value :: "nat list \<Rightarrow> nat" where
  "digits_value ds = foldl (\<lambda>a d. 10 * a + d) 0 ds"

definition take_sign :: "string \<Rightarrow> bool \<times> string" where
  "take_sign s =
     (case s of
        [] \<Rightarrow> (False, s)
      | c # r \<Rightarrow> (if c = CHR ''-'' then (True, r) else if c = CHR ''+'' then (False, r) else (False, s)))"

text \<open>The exponent part: \<open>None\<close> when an \<open>e\<close> is not followed by digits.\<close>

definition take_exponent :: "string \<Rightarrow> (int \<times> string) option" where
  "take_exponent s =
     (case s of
        [] \<Rightarrow> Some (0, s)
      | c # r \<Rightarrow>
          (if c = CHR ''e'' \<or> c = CHR ''E''
           then (case take_sign r of
                   (neg, r') \<Rightarrow>
                     (case digitpart r' of
                        (ds, r'') \<Rightarrow>
                          (if ds = [] then None
                           else Some (if neg then - int (digits_value ds) else int (digits_value ds), r''))))
           else Some (0, s)))"

definition scale10 :: "rat \<Rightarrow> int \<Rightarrow> rat" where
  "scale10 m e = (if 0 \<le> e then m * 10 ^ nat e else m / 10 ^ nat (- e))"

definition parse_number :: "string \<Rightarrow> rat option" where
  "parse_number s =
     (case digitpart s of
        (ip, r1) \<Rightarrow>
          (case (case r1 of
                   [] \<Rightarrow> ([], r1)
                 | c # r \<Rightarrow> (if c = CHR ''.'' then digitpart r else ([], r1))) of
             (fp, r2) \<Rightarrow>
               (if ip = [] \<and> fp = [] then None
                else (case take_exponent r2 of
                        None \<Rightarrow> None
                      | Some (e, r3) \<Rightarrow>
                          (if r3 \<noteq> [] then None
                           else Some (scale10 (of_nat (digits_value (ip @ fp)) / 10 ^ length fp) e))))))"

definition py_float :: "string \<Rightarrow> pyfloat option" where
  "py_float s =
     (case take_sign (str_strip s) of
        (neg, u) \<Rightarrow>
          (if map lower_char u = ''inf'' \<or> map lower_char u = ''infinity''
           then Some (if neg then NegInf else PosInf)
           else if map lower_char u = ''nan'' then Some NaN
           else (case parse_number u of
                   None \<Rightarrow> None
                 | Some m \<Rightarrow> Some (Finite (if neg then - m else m)))))"

section \<open>The content store: \<open>WebsiteData\<close>\<close>

text \<open>
  A card is a dict with the same eight keys in every entry of the catalog, so it is a
  record; \<open>card_id\<close> is the key \<open>"id"\<close>. \<open>card_val\<close> is the card as the dict that the
  responses serialise.
\<close>

record card =
  card_id :: int
  name :: string
  category :: string
  description :: string
  price :: pyfloat
  image_url :: string
  rotation :: pyfloat
  tags :: "string list"

definition card_val :: "card \<Rightarrow> pyval" where
  "card_val c =
     PDict
      [(''id'', PInt (card_id c)),
       (''name'', PStr (name c)),
       (''category'', PStr (category c)),
       (''description'', PStr (description c)),
       (''price'', PFloat (price c)),
       (''image_url'', PStr (image_url c)),
       (''rotation'', PFloat (rotation c)),
       (''tags'', PList (map PStr (tags c)))]"

text \<open>
  The gallery section holds the card catalog and the separately declared category list.
\<close>

record gallery_data =
  title :: string
  cards :: "card list"
  categories :: "string list"
  animation :: pyval

definition gallery_val :: "gallery_data \<Rightarrow> pyval" where
  "gallery_val g =
     PDict
      [(''title'', PStr (title g)),
       (''cards'', PList (map card_val (cards g))),
       (''categories'', PList (map PStr (categories g))),
       (''animation'', animation g)]"

text \<open>
  The eight attributes of a \<open>WebsiteData\<close> instance. The gallery is kept typed, since the
  card endpoints read its fields; the other seven are opaque documents.
\<close>

record website_data =
  header :: pyval
  hero :: pyval
  about :: pyval
  gallery :: gallery_data
  contact :: pyval
  footer :: pyval
  metadata :: pyval
  theme :: pyval

subsection \<open>The static content set by \<open>_initialize_data\<close>\<close>

definition header_data :: pyval where
  "header_data =
     PDict
      [(''logo'', PDict
        [(''text'', PStr ''All Occasion Cards''),
         (''font_family'', PStr ''Dancing Script''),
         (''font_size'', PStr ''2rem'')]),
       (''navigation'', PList
        [PDict
          [(''id'', PStr ''gallery''),
           (''text'', PStr ''Gallery''),
           (''href'', PStr ''#gallery'')],
         PDict
          [(''id'', PStr ''about''),
           (''text'', PStr ''About''),
           (''href'', PStr ''#about'')],
         PDict
          [(''id'', PStr ''contact''),
           (''text'', PStr ''Contact''),
           (''href'', PStr ''#contact'')]])]"

definition hero_data :: pyval where
  "hero_data =
     PDict
      [(''title'', PStr ''Handcrafted Cards for Every Occasion''),
       (''subtitle'', PStr ''Bringing warmth and personality to your special moments with carefully crafted greeting cards''),
       (''background'', PDict
        [(''type'', PStr ''wood''),
         (''opacity'', PFloat (Finite (1 / 10))),
         (''color'', PStr ''#8B4513'')]),
       (''animation'', PDict
        [(''duration'', PFloat (Finite (4 / 5))),
         (''delay'', PFloat (Finite (1 / 5)))])]"

definition about_data :: pyval where
  "about_data =
     PDict
      [(''title'', PStr ''About Us''),
       (''content'', PList
        [PDict
          [(''id'', PStr ''intro''),
           (''text'', PStr ''Welcome to our cozy corner of creativity! We're passionate about crafting beautiful, heartfelt greeting cards that bring warmth and joy to every occasion. Each card is carefully designed with love and attention to detail, making your special moments even more memorable.'')],
         PDict
          [(''id'', PStr ''journey''),
           (''text'', PStr ''Our journey began with a simple idea: to create cards that feel like they were made by a friend, not a factory. We believe that the perfect card can speak volumes and create lasting connections between people. That's why we pour our hearts into every design, ensuring that each card carries its own unique personality and charm.'')],
         PDict
          [(''id'', PStr ''quality''),
           (''text'', PStr ''Whether you're celebrating a birthday, expressing sympathy, or just want to brighten someone's day, we have a card that will help you convey your feelings perfectly. Each card is made with high-quality materials and designed to be treasured for years to come.'')]]),
       (''animation'', PDict
        [(''duration'', PFloat (Finite (4 / 5))),
         (''viewport_once'', PBool True)])]"

definition contact_data :: pyval where
  "contact_data =
     PDict
      [(''title'', PStr ''Get in Touch''),
       (''info'', PList
        [PDict
          [(''id'', PStr ''email''),
           (''type'', PStr ''email''),
           (''icon'', PStr ''FaEnvelope''),
           (''value'', PStr ''hello@alloccasioncards.com''),
           (''label'', PStr ''Email Address'')],
         PDict
          [(''id'', PStr ''phone''),
           (''type'', PStr ''phone''),
           (''icon'', PStr ''FaPhone''),
           (''value'', PStr ''(555) 123-4567''),
           (''label'', PStr ''Phone Number'')]]),
       (''social_media'', PList
        [PDict
          [(''id'', PStr ''instagram''),
           (''platform'', PStr ''Instagram''),
           (''url'', PStr ''https://instagram.com/alloccasioncards''),
           (''icon'', PStr ''FaInstagram'')],
         PDict
          [(''id'', PStr ''facebook''),
           (''platform'', PStr ''Facebook''),
           (''url'', PStr ''https://facebook.com/alloccasioncards''),
           (''icon'', PStr ''FaFacebook'')]]),
       (''business_hours'', PDict
        [(''monday'', PStr ''9:00 AM - 6:00 PM''),
         (''tuesday'', PStr ''9:00 AM - 6:00 PM''),
         (''wednesday'', PStr ''9:00 AM - 6:00 PM''),
         (''thursday'', PStr ''9:00 AM - 6:00 PM''),
         (''friday'', PStr ''9:00 AM - 6:00 PM''),
         (''saturday'', PStr ''10:00 AM - 4:00 PM''),
         (''sunday'', PStr ''Closed'')])]"

definition footer_data :: "int \<Rightarrow> pyval" where
  "footer_data year =
     PDict
      [(''copyright'', PStr ([CHR 0xC2, CHR 0xA9] @ '' '' @ str_int year @ '' All Occasion Cards. All rights reserved.'')),
       (''links'', PList
        [PDict
          [(''text'', PStr ''Privacy Policy''),
           (''url'', PStr ''/privacy'')],
         PDict
          [(''text'', PStr ''Terms of Service''),
           (''url'', PStr ''/terms'')],
         PDict
          [(''text'', PStr ''Shipping Info''),
           (''url'', PStr ''/shipping'')]])]"

definition metadata_data :: "string \<Rightarrow> pyval" where
  "metadata_data now =
     PDict
      [(''site_name'', PStr ''All Occasion Cards''),
       (''description'', PStr ''Handcrafted greeting cards for every special moment''),
       (''keywords'', PList
        [PStr ''greeting cards'',
         PStr ''handcrafted'',
         PStr ''personalized'',
         PStr ''occasions'']),
       (''author'', PStr ''All Occasion Cards Team''),
       (''version'', PStr ''1.0.0''),
       (''last_updated'', PStr now)]"

definition theme_data :: pyval where
  "theme_data =
     PDict
      [(''colors'', PDict
        [(''primary'', PStr ''#4A5568''),
         (''secondary'', PStr ''#F7FAFC''),
         (''text'', PStr ''#2D3748''),
         (''background'', PStr ''#FFFFFF''),
         (''paper'', PStr ''#FEFEFE''),
         (''wood'', PStr ''#8B4513'')]),
       (''fonts'', PDict
        [(''heading'', PStr ''Dancing Script''),
         (''body'', PStr ''Quicksand'')]),
       (''border_radius'', PDict
        [(''small'', PStr ''4px''),
         (''medium'', PStr ''8px''),
         (''large'', PStr ''16px'')]),
       (''shadows'', PDict
        [(''subtle'', PStr ''0 1px 3px rgba(0,0,0,0.1)''),
         (''medium'', PStr ''0 4px 6px rgba(0,0,0,0.1)'')])]"

definition gallery_init :: gallery_data where
  "gallery_init =
     \<lparr>title = ''Our Collection'',
      cards =
     [
      \<lparr>card_id = 1, name = ''Birthday Celebration'', category = ''birthday'',
       description = ''A vibrant birthday card with colorful balloons and confetti'',
       price = Finite (499 / 100), image_url = ''/images/cards/birthday-1.jpg'',
       rotation = Finite (5 / 2), tags = [''birthday'', ''celebration'', ''colorful'']\<rparr>,
      \<lparr>card_id = 2, name = ''Sympathy & Comfort'', category = ''sympathy'',
       description = ''A gentle sympathy card with soft floral design'',
       price = Finite (599 / 100), image_url = ''/images/cards/sympathy-1.jpg'',
       rotation = Finite (- (9 / 5)), tags = [''sympathy'', ''comfort'', ''floral'']\<rparr>,
      \<lparr>card_id = 3, name = ''Wedding Congratulations'', category = ''wedding'',
       description = ''An elegant wedding card with gold accents'',
       price = Finite (699 / 100), image_url = ''/images/cards/wedding-1.jpg'',
       rotation = Finite (16 / 5), tags = [''wedding'', ''elegant'', ''gold'']\<rparr>,
      \<lparr>card_id = 4, name = ''Thank You Note'', category = ''thank_you'',
       description = ''A heartfelt thank you card with handwritten style'',
       price = Finite (399 / 100), image_url = ''/images/cards/thank-you-1.jpg'',
       rotation = Finite (- (21 / 10)), tags = [''thank_you'', ''handwritten'', ''heartfelt'']\<rparr>,
      \<lparr>card_id = 5, name = ''Holiday Cheer'', category = ''holiday'',
       description = ''A festive holiday card with warm winter scenes'',
       price = Finite (499 / 100), image_url = ''/images/cards/holiday-1.jpg'',
       rotation = Finite (3 / 2), tags = [''holiday'', ''festive'', ''winter'']\<rparr>,
      \<lparr>card_id = 6, name = ''Get Well Soon'', category = ''get_well'',
       description = ''A cheerful get well card with bright flowers'',
       price = Finite (449 / 100), image_url = ''/images/cards/get-well-1.jpg'',
       rotation = Finite (- (4 / 5)), tags = [''get_well'', ''cheerful'', ''flowers'']\<rparr>
     ],
      categories = [''birthday'', ''sympathy'', ''wedding'', ''thank_you'', ''holiday'', ''get_well''],
      animation =
        PDict
         [(''duration'', PFloat (Finite (1 / 2))),
          (''delay_increment'', PFloat (Finite (1 / 10)))]\<rparr>"

text \<open>
  \<open>WebsiteData()\<close>: the footer embeds \<open>datetime.now().year\<close> and the metadata
  \<open>datetime.now().isoformat()\<close>, both read once at start-up and passed in here.
\<close>

definition initialize_data :: "int \<Rightarrow> string \<Rightarrow> website_data" where
  "initialize_data year now =
     \<lparr>header = header_data,
      hero = hero_data,
      about = about_data,
      gallery = gallery_init,
      contact = contact_data,
      footer = footer_data year,
      metadata = metadata_data now,
      theme = theme_data\<rparr>"

section \<open>Errors and responses\<close>

text \<open>
  \<open>APIError(message, status_code, error_code)\<close>. A handler either raises it (\<open>Inl\<close>) or
  returns the response dict with the HTTP status (\<open>Inr\<close>); the error handler renders the
  three fields and a timestamp in one envelope for every endpoint.
\<close>

record api_error =
  message :: string
  status_code :: nat
  error_code :: "string option"

type_synonym response = "api_error + pyval \<times> nat"

text \<open>\<open>d[key]\<close>, with \<open>None\<close> for the \<open>KeyError\<close> or \<open>TypeError\<close> it raises.\<close>

definition dict_get :: "pyval \<Rightarrow> string \<Rightarrow> pyval option" where
  "dict_get d k = (case d of PDict kvs \<Rightarrow> map_of kvs k | _ \<Rightarrow> None)"

definition opt_val :: "('a \<Rightarrow> pyval) \<Rightarrow> 'a option \<Rightarrow> pyval" where
  "opt_val f x = (case x of None \<Rightarrow> PNone | Some v \<Rightarrow> f v)"

section \<open>The endpoints\<close>

text \<open>
  Every handler reads the global \<open>website_data\<close>, here its argument \<open>wd\<close>, and the clock
  (\<open>datetime.now().isoformat()\<close>, here \<open>now\<close>). Logging is left out. The handlers'
  \<open>except Exception\<close> clauses turn any other exception into a 500 error; on the typed store
  the only lookup that can raise is the one in \<open>health_check\<close>.
\<close>

definition health_check :: "string \<Rightarrow> bool \<Rightarrow> website_data \<Rightarrow> response" where
  "health_check now debug wd =
     (case dict_get (metadata wd) ''version'' of
        None \<Rightarrow>
          Inl \<lparr>message = ''Health check failed'', status_code = 500,
               error_code = Some ''HEALTH_CHECK_FAILED''\<rparr>
      | Some version \<Rightarrow>
          Inr (PDict
                [(''status'', PStr ''healthy''),
                 (''message'', PStr ''All Occasion Cards API is running''),
                 (''timestamp'', PStr now),
                 (''version'', version),
                 (''debug_mode'', PBool debug)], 200))"

definition get_all_content :: "website_data \<Rightarrow> response" where
  "get_all_content wd =
     Inr (PDict
           [(''header'', header wd),
            (''hero'', hero wd),
            (''about'', about wd),
            (''gallery'', gallery_val (gallery wd)),
            (''contact'', contact wd),
            (''footer'', footer wd),
            (''metadata'', metadata wd),
            (''theme'', theme wd)], 200)"

definition valid_sections :: "string list" where
  "valid_sections =
     [''header'', ''hero'', ''about'', ''gallery'', ''contact'', ''footer'', ''metadata'', ''theme'']"

text \<open>
  \<open>getattr(website_data, section, None)\<close> on the eight data attributes; any other name
  gets the default. The handler only calls it with a name of \<open>valid_sections\<close>.
\<close>

definition getattr_or_none :: "website_data \<Rightarrow> string \<Rightarrow> pyval" where
  "getattr_or_none wd attr =
     (if attr = ''header'' then header wd
      else if attr = ''hero'' then hero wd
      else if attr = ''about'' then about wd
      else if attr = ''gallery'' then gallery_val (gallery wd)
      else if attr = ''contact'' then contact wd
      else if attr = ''footer'' then footer wd
      else if attr = ''metadata'' then metadata wd
      else if attr = ''theme'' then theme wd
      else PNone)"

definition get_section_content :: "string \<Rightarrow> website_data \<Rightarrow> string \<Rightarrow> response" where
  "get_section_content now wd section =
     (if section \<notin> set valid_sections
      then Inl \<lparr>message = ''Invalid section: '' @ section, status_code = 400,
                error_code = Some ''INVALID_SECTION''\<rparr>
      else
        (let section_data = getattr_or_none wd section
         in if section_data = PNone
            then Inl \<lparr>message = ''Section not found: '' @ section, status_code = 404,
                      error_code = Some ''SECTION_NOT_FOUND''\<rparr>
            else Inr (PDict
                       [(''section'', PStr section),
                        (''data'', section_data),
                        (''timestamp'', PStr now)], 200)))"

subsection \<open>\<open>/api/cards\<close>\<close>

text \<open>
  \<open>request.args\<close> maps a parameter name to its (first) value. With \<open>type=float\<close>,
  \<open>request.args.get\<close> converts the value and returns the default, \<open>None\<close>, when the
  parameter is missing or when the conversion raises \<open>ValueError\<close>.
\<close>

definition args_get_float :: "(string \<rightharpoonup> string) \<Rightarrow> string \<Rightarrow> pyfloat option" where
  "args_get_float args key = (case args key of None \<Rightarrow> None | Some rv \<Rightarrow> py_float rv)"

text \<open>The four local variables that \<open>get_cards\<close> reads from the query string.\<close>

record filter_spec =
  f_category :: "string option"
  f_min_price :: "pyfloat option"
  f_max_price :: "pyfloat option"
  f_tags :: "string list"

definition cards_params :: "(string \<rightharpoonup> string) \<Rightarrow> filter_spec" where
  "cards_params args =
     \<lparr>f_category = args ''category'',
      f_min_price = args_get_float args ''min_price'',
      f_max_price = args_get_float args ''max_price'',
      f_tags = (case args ''tags'' of
                  None \<Rightarrow> []
                | Some s \<Rightarrow> (if s = [] then [] else str_split (CHR '','') s))\<rparr>"

text \<open>The four list comprehensions.\<close>

definition filter_by_category :: "string \<Rightarrow> card list \<Rightarrow> card list" where
  "filter_by_category c cs = [card \<leftarrow> cs. category card = c]"

definition filter_by_min_price :: "pyfloat \<Rightarrow> card list \<Rightarrow> card list" where
  "filter_by_min_price lo cs = [card \<leftarrow> cs. float_ge (price card) lo]"

definition filter_by_max_price :: "pyfloat \<Rightarrow> card list \<Rightarrow> card list" where
  "filter_by_max_price hi cs = [card \<leftarrow> cs. float_le (price card) hi]"

definition filter_by_tags :: "string list \<Rightarrow> card list \<Rightarrow> card list" where
  "filter_by_tags ts cs = [card \<leftarrow> cs. list_ex (\<lambda>tag. tag \<in> set (tags card)) ts]"

text \<open>
  The guards: \<open>if category:\<close> holds for a string that is given and not empty, and
  \<open>if tags and tags[0]:\<close>, here \<open>tags_given\<close>, for a list that is not empty and whose first
  element is not the empty string.
\<close>

definition tags_given :: "string list \<Rightarrow> bool" where
  "tags_given ts = (case ts of [] \<Rightarrow> False | t # _ \<Rightarrow> t \<noteq> [])"

definition filter_cards :: "filter_spec \<Rightarrow> card list \<Rightarrow> card list" where
  "filter_cards spec cards0 =
     (let cards1 = (case f_category spec of
                      None \<Rightarrow> cards0
                    | Some c \<Rightarrow> (if c = [] then cards0 else filter_by_category c cards0));
          cards2 = (case f_min_price spec of
                      None \<Rightarrow> cards1
                    | Some lo \<Rightarrow> filter_by_min_price lo cards1);
          cards3 = (case f_max_price spec of
                      None \<Rightarrow> cards2
                    | Some hi \<Rightarrow> filter_by_max_price hi cards2)
      in if tags_given (f_tags spec) then filter_by_tags (f_tags spec) cards3 else cards3)"

definition filters_applied :: "filter_spec \<Rightarrow> pyval" where
  "filters_applied spec =
     PDict
      [(''category'', opt_val PStr (f_category spec)),
       (''min_price'', opt_val PFloat (f_min_price spec)),
       (''max_price'', opt_val PFloat (f_max_price spec)),
       (''tags'', if tags_given (f_tags spec) then PList (map PStr (f_tags spec)) else PNone)]"

definition cards_response :: "string \<Rightarrow> filter_spec \<Rightarrow> card list \<Rightarrow> pyval" where
  "cards_response now spec cs =
     PDict
      [(''cards'', PList (map card_val cs)),
       (''total_count'', PInt (int (length cs))),
       (''filters_applied'', filters_applied spec),
       (''timestamp'', PStr now)]"

definition get_cards :: "string \<Rightarrow> website_data \<Rightarrow> (string \<rightharpoonup> string) \<Rightarrow> response" where
  "get_cards now wd args =
     (let spec = cards_params args;
          cs = filter_cards spec (cards (gallery wd))
      in Inr (cards_response now spec cs, 200))"

subsection \<open>\<open>/api/cards/<id>\<close>, \<open>/api/categories\<close>, \<open>/api/contact\<close>\<close>

definition get_card_by_id :: "string \<Rightarrow> website_data \<Rightarrow> int \<Rightarrow> response" where
  "get_card_by_id now wd cid =
     (case find (\<lambda>c. card_id c = cid) (cards (gallery wd)) of
        None \<Rightarrow>
          Inl \<lparr>message = ''Card not found with ID: '' @ str_int cid, status_code = 404,
               error_code = Some ''CARD_NOT_FOUND''\<rparr>
      | Some c \<Rightarrow>
          Inr (PDict [(''card'', card_val c), (''timestamp'', PStr now)], 200))"

definition get_categories :: "string \<Rightarrow> website_data \<Rightarrow> response" where
  "get_categories now wd =
     Inr (PDict
           [(''categories'', PList (map PStr (categories (gallery wd)))),
            (''total_count'', PInt (int (length (categories (gallery wd))))),
            (''timestamp'', PStr now)], 200)"

definition get_contact_info :: "string \<Rightarrow> website_data \<Rightarrow> response" where
  "get_contact_info now wd =
     Inr (PDict [(''contact'', contact wd), (''timestamp'', PStr now)], 200)"

subsection \<open>The diagnostic endpoints\<close>

text \<open>
  \<open>dir(website_data)\<close> lists the attribute names in alphabetical order; the eight data
  attributes are the ones that are neither private nor callable.
\<close>

definition debug_data_structure :: "string \<Rightarrow> bool \<Rightarrow> website_data \<Rightarrow> response" where
  "debug_data_structure now debug wd =
     (if \<not> debug
      then Inl \<lparr>message = ''Debug endpoint not available in production'', status_code = 403,
                error_code = Some ''DEBUG_DISABLED''\<rparr>
      else Inr (PDict
                 [(''debug_info'',
                   PDict
                    [(''data_structure'',
                      PDict
                       [(''about'', about wd),
                        (''contact'', contact wd),
                        (''footer'', footer wd),
                        (''gallery'', gallery_val (gallery wd)),
                        (''header'', header wd),
                        (''hero'', hero wd),
                        (''metadata'', metadata wd),
                        (''theme'', theme wd)]),
                     (''app_config'',
                      PDict [(''debug'', PBool debug), (''json_sort_keys'', PBool False)]),
                     (''timestamp'', PStr now)])], 200))"

text \<open>
  \<open>log_file\<close> is the content of \<open>app.log\<close> as \<open>readlines\<close> returns it, or \<open>None\<close> when the
  file does not exist.
\<close>

definition debug_logs :: "string \<Rightarrow> bool \<Rightarrow> string list option \<Rightarrow> response" where
  "debug_logs now debug log_file =
     (if \<not> debug
      then Inl \<lparr>message = ''Debug endpoint not available in production'', status_code = 403,
                error_code = Some ''DEBUG_DISABLED''\<rparr>
      else
        (let log_entries =
               (case log_file of
                  None \<Rightarrow> [''No log file found'']
                | Some lines \<Rightarrow>
                    (if length lines > 50 then drop (length lines - 50) lines else lines))
         in Inr (PDict
                  [(''debug_logs'',
                    PDict
                     [(''recent_entries'', PList (map PStr log_entries)),
                      (''total_entries'', PInt (int (length log_entries))),
                      (''timestamp'', PStr now)])], 200)))"

section \<open>The service as a state machine\<close>

text \<open>
  The process state is the one \<open>WebsiteData\<close> instance. A request is served in an
  environment (the clock, the debug flag, the log file) and yields the state after it and
  the response. No handler assigns to \<open>website_data\<close> or to anything reachable from it
  (\<open>get_cards\<close> rebinds a copy of the card list), so each one hands the state back as it
  got it.
\<close>

datatype request =
    HealthCheck
  | GetAllContent
  | GetSectionContent string
  | GetCards "string \<rightharpoonup> string"
  | GetCardById int
  | GetCategories
  | GetContactInfo
  | DebugDataStructure
  | DebugLogs

record env =
  clock :: string
  debug_mode :: bool
  app_log :: "string list option"

fun handle_request :: "env \<Rightarrow> website_data \<Rightarrow> request \<Rightarrow> website_data \<times> response" where
  "handle_request e wd HealthCheck = (wd, health_check (clock e) (debug_mode e) wd)"
| "handle_request e wd GetAllContent = (wd, get_all_content wd)"
| "handle_request e wd (GetSectionContent section) = (wd, get_section_content (clock e) wd section)"
| "handle_request e wd (GetCards args) = (wd, get_cards (clock e) wd args)"
| "handle_request e wd (GetCardById cid) = (wd, get_card_by_id (clock e) wd cid)"
| "handle_request e wd GetCategories = (wd, get_categories (clock e) wd)"
| "handle_request e wd GetContactInfo = (wd, get_contact_info (clock e) wd)"
| "handle_request e wd DebugDataStructure = (wd, debug_data_structure (clock e) (debug_mode e) wd)"
| "handle_request e wd DebugLogs = (wd, debug_logs (clock e) (debug_mode e) (app_log e))"

fun serve :: "website_data \<Rightarrow> (env \<times> request) list \<Rightarrow> website_data" where
  "serve wd [] = wd"
| "serve wd ((e, r) # rs) = serve (fst (handle_request e wd r)) rs"

section \<open>Reference definitions\<close>

text \<open>
  The filter as the specification words it: a stable list filter by the conjunction of
  the predicates whose field is present, where a category or a price bound is present
  when it is not \<open>None\<close> and the tag list is present when it is not empty.
\<close>

definition spec_selects :: "filter_spec \<Rightarrow> card \<Rightarrow> bool" where
  "spec_selects spec c =
     ((case f_category spec of None \<Rightarrow> True | Some k \<Rightarrow> category c = k) \<and>
      (case f_min_price spec of None \<Rightarrow> True | Some lo \<Rightarrow> float_ge (price c) lo) \<and>
      (case f_max_price spec of None \<Rightarrow> True | Some hi \<Rightarrow> float_le (price c) hi) \<and>
      (case f_tags spec of [] \<Rightarrow> True | t # ts \<Rightarrow> \<exists>x \<in> set (tags c). x \<in> set (t # ts)))"

definition spec_filter :: "filter_spec \<Rightarrow> card list \<Rightarrow> card list" where
  "spec_filter spec cs = filter (spec_selects spec) cs"

text \<open>
  The same conjunction with the guards of the handler: an empty category string and a tag
  list whose first element is the empty string also switch their predicate off.
\<close>

definition guarded_selects :: "filter_spec \<Rightarrow> card \<Rightarrow> bool" where
  "guarded_selects spec c =
     ((case f_category spec of None \<Rightarrow> True | Some k \<Rightarrow> k = [] \<or> category c = k) \<and>
      (case f_min_price spec of None \<Rightarrow> True | Some lo \<Rightarrow> float_ge (price c) lo) \<and>
      (case f_max_price spec of None \<Rightarrow> True | Some hi \<Rightarrow> float_le (price c) hi) \<and>
      (case f_tags spec of
         [] \<Rightarrow> True
       | t # ts \<Rightarrow> t = [] \<or> (\<exists>x \<in> set (tags c). x \<in> set (t # ts))))"


text \<open>The invariant of the catalog: every card's category is a declared one.\<close>

definition categories_declared :: "website_data \<Rightarrow> bool" where
  "categories_declared wd =
     (\<forall>c \<in> set (cards (gallery wd)). category c \<in> set (categories (gallery wd)))"

section \<open>Auxiliary facts\<close>

lemma list_ex_tags: "list_ex (\<lambda>tag. tag \<in> set ys) ts = (\<exists>x \<in> set ys. x \<in> set ts)"
  by (auto simp: list_ex_iff)

lemma filter_cards_guarded: "filter_cards spec cs = filter (guarded_selects spec) cs"
  by (cases "f_tags spec")
     (auto simp: filter_cards_def guarded_selects_def tags_given_def filter_by_category_def
        filter_by_min_price_def filter_by_max_price_def filter_by_tags_def list_ex_tags Let_def
        split: option.splits intro!: filter_cong)

lemma serve_unchanged: "serve wd rs = wd"
proof (induction rs arbitrary: wd)
  case Nil
  show ?case by simp
next
  case (Cons x rs)
  obtain e r where x: "x = (e, r)" by (cases x)
  have "fst (handle_request e wd r) = wd" by (cases r) simp_all
  with Cons x show ?case by simp
qed

lemma get_cards_unfold:
  "get_cards now wd args =
     Inr (cards_response now (cards_params args)
            (filter_cards (cards_params args) (cards (gallery wd))), 200)"
  by (simp add: get_cards_def Let_def)







lemma catalog_cards: "cards (gallery (initialize_data year t0)) = cards gallery_init"
  by (simp add: initialize_data_def)

lemma str_split_not_Nil: "str_split sep s \<noteq> []"
  by (induction s) (auto split: list.splits)

lemma str_split_leading_other:
  "c \<noteq> sep \<Longrightarrow> \<exists>w ws. str_split sep (c # r) = (c # w) # ws"
  using str_split_not_Nil [of sep r] by (cases "str_split sep r") auto

section \<open>Malformed price bounds (C1)\<close>




section \<open>The filter as a stable list filter (C2)\<close>

text \<open>
  Claim C2, as the code has it: for every card list and every filter specification, the
  four steps (category, minimum price, maximum price, tags, in this order) give the stable
  list filter of the conjunction of the predicates that are switched on. The category
  predicate is off when the category is absent or the empty string, a price predicate when
  its bound is absent, and the tag predicate when the tag list is empty or its first
  element is the empty string. The surviving cards keep their order.
\<close>

theorem filter_cards_stable_filter:
  "filter_cards spec cs = filter (guarded_selects spec) cs"
  by (rule filter_cards_guarded)

theorem filter_cards_stable_filter_witness:
  "map card_id
     (filter_cards \<lparr>f_category = Some ''birthday'', f_min_price = Some (Finite 4),
                    f_max_price = Some (Finite 6), f_tags = [''celebration'', ''gold'']\<rparr>
        (cards gallery_init)) = [1]"
  using filter_cards_stable_filter
    [of "\<lparr>f_category = Some ''birthday'', f_min_price = Some (Finite 4),
          f_max_price = Some (Finite 6), f_tags = [''celebration'', ''gold'']\<rparr>"
        "cards gallery_init"]
  by (simp add: guarded_selects_def gallery_init_def float_ge_def)

text \<open>
  Without the guards the equation fails. A tag list that is present but starts with the
  empty string, as \<open>tags=,wedding\<close> gives: the handler skips the tag predicate and keeps
  all six cards, while the filter that skips a predicate only when its field is absent
  keeps the wedding card alone.
\<close>

theorem filter_cards_differs_from_spec_filter:
  "map card_id
     (filter_cards \<lparr>f_category = None, f_min_price = None, f_max_price = None,
                    f_tags = ['''', ''wedding'']\<rparr> (cards gallery_init)) = [1, 2, 3, 4, 5, 6] \<and>
   map card_id
     (spec_filter \<lparr>f_category = None, f_min_price = None, f_max_price = None,
                   f_tags = ['''', ''wedding'']\<rparr> (cards gallery_init)) = [3] \<and>
   filter_cards \<lparr>f_category = None, f_min_price = None, f_max_price = None,
                 f_tags = ['''', ''wedding'']\<rparr> (cards gallery_init) \<noteq>
   spec_filter \<lparr>f_category = None, f_min_price = None, f_max_price = None,
                f_tags = ['''', ''wedding'']\<rparr> (cards gallery_init)"
  by (simp add: filter_cards_def tags_given_def spec_filter_def spec_selects_def gallery_init_def)

section \<open>Price bounds (C3)\<close>



section \<open>The tag predicate (C4)\<close>



section \<open>Idempotence (C5)\<close>

text \<open>
  Claim C5. Filtering a filtered list again with the same specification changes nothing.
\<close>

theorem filter_cards_idempotent:
  "filter_cards spec (filter_cards spec cs) = filter_cards spec cs"
  by (simp add: filter_cards_guarded)

theorem filter_cards_idempotent_witness:
  "map card_id
     (filter_cards \<lparr>f_category = None, f_min_price = Some (Finite 5), f_max_price = None,
                    f_tags = []\<rparr>
        (filter_cards \<lparr>f_category = None, f_min_price = Some (Finite 5), f_max_price = None,
                       f_tags = []\<rparr> (cards gallery_init))) = [2, 3]"
  using filter_cards_idempotent
    [of "\<lparr>f_category = None, f_min_price = Some (Finite 5), f_max_price = None, f_tags = []\<rparr>"
        "cards gallery_init"]
  by (simp add: filter_cards_def tags_given_def filter_by_min_price_def float_ge_def
      gallery_init_def)

section \<open>Card by id (C6)\<close>

text \<open>
  Claim C6. \<open>get_card_by_id\<close> raises the 404 error \<open>CARD_NOT_FOUND\<close> exactly when no card
  of the catalog has the requested id; otherwise it returns the first card with that id,
  as it stands in the catalog. On the static catalog, id 999 gives the error and id 1
  gives the first card, whose id is 1.
\<close>

theorem get_card_by_id_linear_scan:
  "((get_card_by_id now wd cid =
       Inl \<lparr>message = ''Card not found with ID: '' @ str_int cid, status_code = 404,
            error_code = Some ''CARD_NOT_FOUND''\<rparr>) =
     (\<forall>c \<in> set (cards (gallery wd)). card_id c \<noteq> cid)) \<and>
   (\<forall>before c after.
       cards (gallery wd) = before @ c # after \<and> card_id c = cid \<and>
       (\<forall>b \<in> set before. card_id b \<noteq> cid) \<longrightarrow>
       get_card_by_id now wd cid =
         Inr (PDict [(''card'', card_val c), (''timestamp'', PStr now)], 200)) \<and>
   get_card_by_id now (initialize_data year t0) 999 =
     Inl \<lparr>message = ''Card not found with ID: 999'', status_code = 404,
          error_code = Some ''CARD_NOT_FOUND''\<rparr> \<and>
   get_card_by_id now (initialize_data year t0) 1 =
     Inr (PDict [(''card'', card_val (hd (cards gallery_init))), (''timestamp'', PStr now)], 200) \<and>
   card_id (hd (cards gallery_init)) = 1"
proof -
  have 1: "(get_card_by_id now wd cid =
       Inl \<lparr>message = ''Card not found with ID: '' @ str_int cid, status_code = 404,
            error_code = Some ''CARD_NOT_FOUND''\<rparr>) =
     (\<forall>c \<in> set (cards (gallery wd)). card_id c \<noteq> cid)"
  proof (cases "find (\<lambda>c. card_id c = cid) (cards (gallery wd))")
    case None
    then have "\<forall>c \<in> set (cards (gallery wd)). card_id c \<noteq> cid"
      by (simp add: find_None_iff)
    with None show ?thesis by (simp add: get_card_by_id_def)
  next
    case (Some c)
    then have "c \<in> set (cards (gallery wd)) \<and> card_id c = cid"
      by (auto simp: find_Some_iff in_set_conv_nth)
    with Some show ?thesis by (auto simp: get_card_by_id_def)
  qed
  have 2: "get_card_by_id now wd cid =
         Inr (PDict [(''card'', card_val c), (''timestamp'', PStr now)], 200)"
    if "cards (gallery wd) = before @ c # after" "card_id c = cid"
       "\<forall>b \<in> set before. card_id b \<noteq> cid" for before c after
  proof -
    have "find (\<lambda>c. card_id c = cid) (before @ c # after) = Some c"
      using that(2,3) by (induction before) auto
    with that(1) show ?thesis by (simp add: get_card_by_id_def)
  qed
  have 3: "get_card_by_id now (initialize_data year t0) 999 =
     Inl \<lparr>message = ''Card not found with ID: 999'', status_code = 404,
          error_code = Some ''CARD_NOT_FOUND''\<rparr>"
    by (simp add: get_card_by_id_def catalog_cards gallery_init_def str_int_def str_nat.simps
        digit_char_def)
  have 4: "get_card_by_id now (initialize_data year t0) 1 =
     Inr (PDict [(''card'', card_val (hd (cards gallery_init))), (''timestamp'', PStr now)], 200)"
    by (simp add: get_card_by_id_def catalog_cards gallery_init_def)
  have 5: "card_id (hd (cards gallery_init)) = 1"
    by (simp add: gallery_init_def)
  from 1 2 3 4 5 show ?thesis by blast
qed

theorem get_card_by_id_linear_scan_witness:
  "get_card_by_id ''t'' (initialize_data 2024 ''t0'') 7 =
     Inl \<lparr>message = ''Card not found with ID: 7'', status_code = 404,
          error_code = Some ''CARD_NOT_FOUND''\<rparr> \<and>
   get_card_by_id ''t'' (initialize_data 2024 ''t0'') 2 =
     Inr (PDict [(''card'', card_val (cards gallery_init ! 1)), (''timestamp'', PStr ''t'')], 200)"
proof -
  have no7: "\<forall>c \<in> set (cards (gallery (initialize_data 2024 ''t0''))). card_id c \<noteq> 7"
    by (simp add: catalog_cards gallery_init_def)
  have s7: "str_int 7 = ''7''"
    by (simp add: str_int_def str_nat.simps digit_char_def)
  have split: "cards (gallery (initialize_data 2024 ''t0'')) =
      [hd (cards gallery_init)] @ (cards gallery_init ! 1) # drop 2 (cards gallery_init)"
    by (simp add: catalog_cards gallery_init_def)
  have two: "card_id (cards gallery_init ! 1) = 2"
    and one: "\<forall>b \<in> set [hd (cards gallery_init)]. card_id b \<noteq> 2"
    by (simp_all add: gallery_init_def)
  from get_card_by_id_linear_scan [of "''t''" "initialize_data 2024 ''t0''" 7] no7 s7
  have a: "get_card_by_id ''t'' (initialize_data 2024 ''t0'') 7 =
     Inl \<lparr>message = ''Card not found with ID: 7'', status_code = 404,
          error_code = Some ''CARD_NOT_FOUND''\<rparr>"
    by simp
  from get_card_by_id_linear_scan [of "''t''" "initialize_data 2024 ''t0''" 2] split two one
  have b: "get_card_by_id ''t'' (initialize_data 2024 ''t0'') 2 =
     Inr (PDict [(''card'', card_val (cards gallery_init ! 1)), (''timestamp'', PStr ''t'')], 200)"
    by blast
  from a b show ?thesis by simp
qed

section \<open>Sections by name (C7)\<close>

text \<open>
  Claim C7. \<open>get_section_content\<close> raises the 400 error \<open>INVALID_SECTION\<close> for a name
  outside the eight section names, raises the 404 error \<open>SECTION_NOT_FOUND\<close> for one of
  the eight names whose attribute is \<open>None\<close>, and otherwise answers 200 with the value of
  that attribute as \<open>data\<close>; each of the eight names reads the attribute of that name.
\<close>

theorem get_section_content_cases:
  "(section \<notin> set valid_sections \<longrightarrow>
      get_section_content now wd section =
        Inl \<lparr>message = ''Invalid section: '' @ section, status_code = 400,
             error_code = Some ''INVALID_SECTION''\<rparr>) \<and>
   (section \<in> set valid_sections \<and> getattr_or_none wd section = PNone \<longrightarrow>
      get_section_content now wd section =
        Inl \<lparr>message = ''Section not found: '' @ section, status_code = 404,
             error_code = Some ''SECTION_NOT_FOUND''\<rparr>) \<and>
   (section \<in> set valid_sections \<and> getattr_or_none wd section \<noteq> PNone \<longrightarrow>
      get_section_content now wd section =
        Inr (PDict
              [(''section'', PStr section),
               (''data'', getattr_or_none wd section),
               (''timestamp'', PStr now)], 200)) \<and>
   set valid_sections =
     {''header'', ''hero'', ''about'', ''gallery'', ''contact'', ''footer'', ''metadata'', ''theme''} \<and>
   map (getattr_or_none wd) valid_sections =
     [header wd, hero wd, about wd, gallery_val (gallery wd), contact wd, footer wd,
      metadata wd, theme wd]"
  by (simp add: get_section_content_def valid_sections_def getattr_or_none_def)

theorem get_section_content_cases_witness:
  "get_section_content ''t'' (initialize_data 2024 ''t0'') ''invalid_section'' =
     Inl \<lparr>message = ''Invalid section: invalid_section'', status_code = 400,
          error_code = Some ''INVALID_SECTION''\<rparr> \<and>
   get_section_content ''t'' ((initialize_data 2024 ''t0'')\<lparr>hero := PNone\<rparr>) ''hero'' =
     Inl \<lparr>message = ''Section not found: hero'', status_code = 404,
          error_code = Some ''SECTION_NOT_FOUND''\<rparr> \<and>
   get_section_content ''t'' (initialize_data 2024 ''t0'') ''theme'' =
     Inr (PDict [(''section'', PStr ''theme''), (''data'', theme_data), (''timestamp'', PStr ''t'')],
          200)"
proof -
  let ?wd = "initialize_data 2024 ''t0''"
  have a: "''invalid_section'' \<notin> set valid_sections"
    by (simp add: valid_sections_def)
  have b: "''hero'' \<in> set valid_sections \<and> getattr_or_none (?wd\<lparr>hero := PNone\<rparr>) ''hero'' = PNone"
    by (simp add: valid_sections_def getattr_or_none_def)
  have c: "''theme'' \<in> set valid_sections \<and> getattr_or_none ?wd ''theme'' \<noteq> PNone"
    and d: "getattr_or_none ?wd ''theme'' = theme_data"
    by (simp_all add: valid_sections_def getattr_or_none_def initialize_data_def theme_data_def)
  from get_section_content_cases [of "''invalid_section''" "''t''" ?wd] a
  have 1: "get_section_content ''t'' ?wd ''invalid_section'' =
     Inl \<lparr>message = ''Invalid section: invalid_section'', status_code = 400,
          error_code = Some ''INVALID_SECTION''\<rparr>"
    by simp
  from get_section_content_cases [of "''hero''" "''t''" "?wd\<lparr>hero := PNone\<rparr>"] b
  have 2: "get_section_content ''t'' (?wd\<lparr>hero := PNone\<rparr>) ''hero'' =
     Inl \<lparr>message = ''Section not found: hero'', status_code = 404,
          error_code = Some ''SECTION_NOT_FOUND''\<rparr>"
    by simp
  from get_section_content_cases [of "''theme''" "''t''" ?wd] c d
  have 3: "get_section_content ''t'' ?wd ''theme'' =
     Inr (PDict [(''section'', PStr ''theme''), (''data'', theme_data), (''timestamp'', PStr ''t'')],
          200)"
    by simp
  from 1 2 3 show ?thesis by simp
qed

section \<open>The header section and the full content (C8)\<close>

text \<open>
  Claim C8. \<open>get_section_content\<close> for \<open>header\<close> answers 200 with the whole header
  document as \<open>data\<close>, and this is the value under the key \<open>header\<close> in the response of
  \<open>get_all_content\<close>: for every store whose header is not \<open>None\<close>, and so for the static
  store, whose header is the document set by \<open>_initialize_data\<close>.
\<close>

theorem header_section_equals_all_content_header:
  "(header wd \<noteq> PNone \<longrightarrow>
      (\<exists>b1 b2. get_section_content now wd ''header'' = Inr (b1, 200) \<and>
               dict_get b1 ''data'' = Some (header wd) \<and>
               get_all_content wd = Inr (b2, 200) \<and>
               dict_get b2 ''header'' = Some (header wd))) \<and>
   get_section_content now (initialize_data year t0) ''header'' =
     Inr (PDict [(''section'', PStr ''header''), (''data'', header_data), (''timestamp'', PStr now)],
          200) \<and>
   (\<exists>b. get_all_content (initialize_data year t0) = Inr (b, 200) \<and>
        dict_get b ''header'' = Some header_data)"
  by (simp add: get_section_content_def valid_sections_def getattr_or_none_def
      get_all_content_def dict_get_def initialize_data_def header_data_def)

theorem header_section_equals_all_content_header_witness:
  "header (initialize_data 2024 ''t0'') \<noteq> PNone \<and>
   get_section_content ''t'' (initialize_data 2024 ''t0'') ''header'' =
     Inr (PDict
           [(''section'', PStr ''header''),
            (''data'', header (initialize_data 2024 ''t0'')),
            (''timestamp'', PStr ''t'')], 200) \<and>
   get_all_content (initialize_data 2024 ''t0'') =
     Inr (PDict
           [(''header'', header (initialize_data 2024 ''t0'')),
            (''hero'', hero_data),
            (''about'', about_data),
            (''gallery'', gallery_val gallery_init),
            (''contact'', contact_data),
            (''footer'', footer_data 2024),
            (''metadata'', metadata_data ''t0''),
            (''theme'', theme_data)], 200)"
  using header_section_equals_all_content_header [of "initialize_data 2024 ''t0''" "''t''" 2024 "''t0''"]
  by (simp add: get_all_content_def initialize_data_def header_data_def)

section \<open>The category invariant (C9)\<close>

text \<open>
  Claim C9. Every card of the static catalog has a category of the declared category
  list, and this holds in the state after any sequence of requests, since no handler
  changes the store.
\<close>

theorem categories_declared_always:
  "categories_declared (serve (initialize_data year t0) rs)"
  by (simp add: serve_unchanged categories_declared_def initialize_data_def gallery_init_def)

theorem categories_declared_always_witness:
  "categories_declared
     (serve (initialize_data 2024 ''t0'')
        [(\<lparr>clock = ''t1'', debug_mode = True, app_log = None\<rparr>, GetCards [''category'' \<mapsto> ''wedding'']),
         (\<lparr>clock = ''t2'', debug_mode = True, app_log = None\<rparr>, GetCardById 999),
         (\<lparr>clock = ''t3'', debug_mode = False, app_log = None\<rparr>, DebugLogs)]) \<and>
   category (cards (gallery
     (serve (initialize_data 2024 ''t0'')
        [(\<lparr>clock = ''t1'', debug_mode = True, app_log = None\<rparr>, GetCards [''category'' \<mapsto> ''wedding''])])) ! 2)
     = ''wedding''"
  using categories_declared_always
    [of 2024 "''t0''"
        "[(\<lparr>clock = ''t1'', debug_mode = True, app_log = None\<rparr>, GetCards [''category'' \<mapsto> ''wedding'']),
          (\<lparr>clock = ''t2'', debug_mode = True, app_log = None\<rparr>, GetCardById 999),
          (\<lparr>clock = ''t3'', debug_mode = False, app_log = None\<rparr>, DebugLogs)]"]
  by (simp add: serve_unchanged initialize_data_def gallery_init_def)

section \<open>A tags parameter that starts with a comma (C10)\<close>

text \<open>
  Claim C10. The tag filter is switched on exactly when the \<open>tags\<close> parameter is given
  and starts with a character other than a comma, that is, when its first
  comma-separated element is not empty. For a \<open>tags\<close> value that starts with a comma the
  filter is skipped, \<open>filters_applied\<close> reports \<open>tags\<close> as \<open>None\<close>, and the whole response is
  the one of the same request without \<open>tags\<close>.
\<close>

theorem tags_leading_comma_skips_filter:
  "(tags_given (f_tags (cards_params args)) \<longleftrightarrow>
      (\<exists>c r. args ''tags'' = Some (c # r) \<and> c \<noteq> CHR '','')) \<and>
   (args ''tags'' = Some (CHR '','' # rest) \<longrightarrow>
      filter_cards (cards_params args) cs = filter_cards (cards_params (args(''tags'' := None))) cs \<and>
      dict_get (filters_applied (cards_params args)) ''tags'' = Some PNone \<and>
      get_cards now wd args = get_cards now wd (args(''tags'' := None)))"
proof -
  have 1: "tags_given (f_tags (cards_params args)) \<longleftrightarrow>
      (\<exists>c r. args ''tags'' = Some (c # r) \<and> c \<noteq> CHR '','')"
  proof (cases "args ''tags''")
    case None
    then show ?thesis by (simp add: cards_params_def tags_given_def)
  next
    case (Some s)
    show ?thesis
    proof (cases s)
      case Nil
      with Some show ?thesis by (simp add: cards_params_def tags_given_def)
    next
      case (Cons c r)
      show ?thesis
      proof (cases "c = CHR '',''")
        case True
        with Some Cons show ?thesis by (simp add: cards_params_def tags_given_def)
      next
        case False
        then obtain w ws where "str_split (CHR '','') (c # r) = (c # w) # ws"
          using str_split_leading_other by blast
        with Some Cons False show ?thesis by (simp add: cards_params_def tags_given_def)
      qed
    qed
  qed
  have 2: "filter_cards (cards_params args) cs = filter_cards (cards_params (args(''tags'' := None))) cs \<and>
      dict_get (filters_applied (cards_params args)) ''tags'' = Some PNone \<and>
      get_cards now wd args = get_cards now wd (args(''tags'' := None))"
    if "args ''tags'' = Some (CHR '','' # rest)"
    using that
    by (simp add: get_cards_unfold cards_response_def filters_applied_def filter_cards_def
        cards_params_def args_get_float_def tags_given_def dict_get_def)
  from 1 2 show ?thesis by blast
qed

theorem tags_leading_comma_skips_filter_witness:
  "f_tags (cards_params [''tags'' \<mapsto> '',birthday'']) = ['''', ''birthday''] \<and>
   get_cards ''t'' (initialize_data 2024 ''t0'') [''tags'' \<mapsto> '',birthday''] =
   get_cards ''t'' (initialize_data 2024 ''t0'') Map.empty \<and>
   map card_id (filter_cards (cards_params [''tags'' \<mapsto> '',birthday'']) (cards gallery_init)) =
     [1, 2, 3, 4, 5, 6]"
proof -
  let ?args = "[''tags'' \<mapsto> '',birthday'']"
  have t: "?args ''tags'' = Some (CHR '','' # ''birthday'')" by simp
  have e: "?args(''tags'' := None) = Map.empty" by simp
  have s: "f_tags (cards_params ?args) = ['''', ''birthday'']"
    by (simp add: cards_params_def)
  have n: "map card_id (filter_cards (cards_params Map.empty) (cards gallery_init)) = [1, 2, 3, 4, 5, 6]"
    by (simp add: cards_params_def args_get_float_def filter_cards_def tags_given_def gallery_init_def)
  from tags_leading_comma_skips_filter
    [of ?args "''birthday''" "cards gallery_init" "''t''" "initialize_data 2024 ''t0''"] t e s n
  show ?thesis by simp
qed

end
